theory Spec2Isabelle
  imports Main
begin

section \<open>Python values used by the analysis pipeline\<close>

text \<open>
  Exceptions are values. The analyzer distinguishes exactly one class by name
  (\<open>except SyntaxError\<close> in \<open>_analyze_ast\<close>); every other handler is
  \<open>except Exception\<close>. An exception therefore is either a \<open>SyntaxError\<close> or an
  exception of some other class below \<open>Exception\<close>, given by the name of its class;
  both carry the text that \<open>str(e)\<close> yields.
\<close>

datatype exn = SyntaxError string | Exception string string

fun str_exn :: "exn \<Rightarrow> string" where
  "str_exn (SyntaxError m) = m"
| "str_exn (Exception cls m) = m"

text \<open>The exception of a subscript with a missing key; its text is the quoted key.\<close>

definition KeyError :: "string \<Rightarrow> exn" where
  "KeyError k = Exception ''KeyError'' (CHR 0x27 # k @ [CHR 0x27])"

text \<open>\<open>str(n)\<close> of a Python integer, as the f-strings of the source apply it.\<close>

definition digit_char :: "nat \<Rightarrow> char" where
  "digit_char d = ''0123456789'' ! d"

fun str_nat :: "nat \<Rightarrow> string" where
  "str_nat n = (if n < 10 then [digit_char n] else str_nat (n div 10) @ [digit_char (n mod 10)])"

declare str_nat.simps [simp del]

definition str_int :: "int \<Rightarrow> string" where
  "str_int i = (if i < 0 then CHR ''-'' # str_nat (nat (- i)) else str_nat (nat i))"

text \<open>\<open>sep.join(xs)\<close>.\<close>

fun join :: "string \<Rightarrow> string list \<Rightarrow> string" where
  "join sep [] = []"
| "join sep [x] = x"
| "join sep (x # y # ys) = x @ sep @ join sep (y # ys)"

text \<open>\<open>s.upper()\<close> on the ASCII letters; every other byte is kept.\<close>

definition upper_char :: "char \<Rightarrow> char" where
  "upper_char c =
     (case map_of (zip ''abcdefghijklmnopqrstuvwxyz'' ''ABCDEFGHIJKLMNOPQRSTUVWXYZ'') c of
        Some u \<Rightarrow> u
      | None \<Rightarrow> c)"

definition upper :: "string \<Rightarrow> string" where
  "upper s = map upper_char s"

section \<open>The result dictionaries\<close>

text \<open>
  One pylint message, as the JSON reporter stores it: the analyzer reads the keys
  \<open>type\<close>, \<open>message\<close> and \<open>line\<close>.
\<close>

record pylint_msg =
  msg_type :: string
  msg_message :: string
  msg_line :: int

text \<open>One entry of the list built at the end of \<open>_run_bandit\<close>.\<close>

record bandit_issue =
  issue :: string
  severity :: string
  confidence :: string
  line :: int
  col :: int

text \<open>
  The dictionary returned by \<open>_run_black\<close>. Its consumers read every key with
  \<open>.get\<close>, so each key is optional.
\<close>

record black_result =
  needs_formatting :: "bool option"
  formatted_code :: "string option"
  error :: "string option"

record function_info =
  fn_name :: string
  fn_args :: "string list"
  fn_lineno :: int

record class_info =
  cls_name :: string
  cls_methods :: "string list"
  cls_lineno :: int

record complexity =
  cx_branches :: nat
  cx_loops :: nat
  cx_functions :: nat
  cx_classes :: nat

record analysis =
  an_imports :: "string list"
  an_functions :: "function_info list"
  an_classes :: "class_info list"
  an_complexity :: complexity

text \<open>
  \<open>_analyze_ast\<close> returns one of two dictionaries: the analysis with the keys
  \<open>imports\<close>, \<open>functions\<close>, \<open>classes\<close>, \<open>complexity\<close>, or a dictionary
  with the single key \<open>error\<close>.
\<close>

datatype ast_result = Analysis analysis | AstError string

text \<open>
  The dictionary built by \<open>analyze_code\<close> and read by the suggestion deriver and
  the report formatter. The formatter reads each key with \<open>.get\<close>, the deriver
  with a subscript, so a key may be missing in what a caller hands over.
\<close>

record results =
  pylint :: "pylint_msg list option"
  bandit :: "bandit_issue list option"
  black :: "black_result option"
  ast_analysis :: "ast_result option"

section \<open>The suggestion deriver\<close>

definition pylint_suggestion :: "pylint_msg \<Rightarrow> string" where
  "pylint_suggestion msg =
     ''Pylint '' @ msg_type msg @ '': '' @ msg_message msg @
     '' (line '' @ str_int (msg_line msg) @ '')''"

definition bandit_suggestion :: "bandit_issue \<Rightarrow> string" where
  "bandit_suggestion i =
     ''Security issue ('' @ severity i @ ''): '' @ issue i @
     '' (line '' @ str_int (line i) @ '', confidence: '' @ confidence i @ '')''"

definition black_advice :: string where
  "black_advice = ''Code formatting: Consider using Black to format your code''"

definition modules_advice :: string where
  "modules_advice = ''Consider breaking down the code into smaller modules''"

definition complexity_advice :: string where
  "complexity_advice =
     ''High cyclomatic complexity detected. Consider simplifying the logic''"

text \<open>The body of the first loop: one pylint message, appended when its type matches.\<close>

definition pylint_step :: "pylint_msg \<Rightarrow> string list \<Rightarrow> string list" where
  "pylint_step msg suggestions =
     (if msg_type msg \<in> set [''error'', ''warning'']
      then suggestions @ [pylint_suggestion msg] else suggestions)"

definition bandit_step :: "bandit_issue \<Rightarrow> string list \<Rightarrow> string list" where
  "bandit_step i suggestions =
     (if severity i \<in> set [''HIGH'', ''MEDIUM'']
      then suggestions @ [bandit_suggestion i] else suggestions)"

definition black_suggestions :: "black_result \<Rightarrow> string list \<Rightarrow> string list" where
  "black_suggestions b suggestions =
     (if (case needs_formatting b of None \<Rightarrow> False | Some v \<Rightarrow> v)
      then suggestions @ [black_advice] else suggestions)"

definition ast_suggestions :: "ast_result \<Rightarrow> string list \<Rightarrow> string list" where
  "ast_suggestions a suggestions =
     (case a of
        AstError _ \<Rightarrow> suggestions
      | Analysis an \<Rightarrow>
          (let s1 = (if cx_functions (an_complexity an) > 10
                     then suggestions @ [modules_advice] else suggestions)
           in if cx_branches (an_complexity an) > 5 then s1 @ [complexity_advice] else s1))"

text \<open>
  \<open>get_improvement_suggestions\<close>: the four blocks run in the order of the source; a
  subscript on a missing key raises \<open>KeyError\<close>.
\<close>

definition get_improvement_suggestions :: "results \<Rightarrow> exn + string list" where
  "get_improvement_suggestions r =
     (case pylint r of
        None \<Rightarrow> Inl (KeyError ''pylint'')
      | Some msgs \<Rightarrow>
          (let suggestions = fold pylint_step msgs [] in
           case bandit r of
             None \<Rightarrow> Inl (KeyError ''bandit'')
           | Some issues \<Rightarrow>
               (let suggestions = fold bandit_step issues suggestions in
                case black r of
                  None \<Rightarrow> Inl (KeyError ''black'')
                | Some b \<Rightarrow>
                    (let suggestions = black_suggestions b suggestions in
                     case ast_analysis r of
                       None \<Rightarrow> Inl (KeyError ''ast_analysis'')
                     | Some a \<Rightarrow> Inr (ast_suggestions a suggestions)))))"

section \<open>The syntax tree and its traversal\<close>

text \<open>
  The tree that \<open>ast.parse\<close> returns, as far as the analyzer looks at it. Each node
  class that an \<open>isinstance\<close> test of the source names has its own constructor, with
  the fields the analyzer reads; every other node class (the module, expressions,
  \<open>arguments\<close>, \<open>alias\<close>, \<open>AsyncFunctionDef\<close>, ...) is \<open>Other\<close>. The node lists
  are the children in the order of \<open>ast.iter_child_nodes\<close>.
  \<^item> \<open>Import names\<close>: the names of the aliases of \<open>import a, b\<close>.
  \<^item> \<open>ImportFrom module name names\<close>: \<open>module\<close> is \<open>None\<close> for
    \<open>from . import y\<close>; the grammar requires at least one imported name, so the
    first (\<open>node.names[0].name\<close>) is kept apart from the remaining ones.
  \<^item> \<open>FunctionDef name args children lineno\<close>: \<open>args\<close> are the names in
    \<open>node.args.args\<close>.
  \<^item> \<open>ClassDef name before body after lineno\<close>: the children are the bases and
    keywords, then the body, then the decorators.
\<close>

datatype node =
    Import "string list"
  | ImportFrom "string option" string "string list"
  | FunctionDef string "string list" "node list" int
  | ClassDef string "node list" "node list" "node list" int
  | If "node list"
  | Try "node list"
  | ExceptHandler "node list"
  | For "node list"
  | While "node list"
  | Other "node list"

fun iter_child_nodes :: "node \<Rightarrow> node list" where
  "iter_child_nodes (Import names) = map (\<lambda>_. Other []) names"
| "iter_child_nodes (ImportFrom module name names) = map (\<lambda>_. Other []) (name # names)"
| "iter_child_nodes (FunctionDef name args children lineno) = children"
| "iter_child_nodes (ClassDef name before body after lineno) = before @ body @ after"
| "iter_child_nodes (If children) = children"
| "iter_child_nodes (Try children) = children"
| "iter_child_nodes (ExceptHandler children) = children"
| "iter_child_nodes (For children) = children"
| "iter_child_nodes (While children) = children"
| "iter_child_nodes (Other children) = children"

text \<open>The number of nodes below and including a node; it bounds the traversal.\<close>

fun weight :: "node \<Rightarrow> nat" where
  "weight (Import names) = Suc (length names)"
| "weight (ImportFrom module name names) = Suc (Suc (length names))"
| "weight (FunctionDef name args children lineno) = Suc (sum_list (map weight children))"
| "weight (ClassDef name before body after lineno) =
     Suc (sum_list (map weight before) + sum_list (map weight body) +
          sum_list (map weight after))"
| "weight (If children) = Suc (sum_list (map weight children))"
| "weight (Try children) = Suc (sum_list (map weight children))"
| "weight (ExceptHandler children) = Suc (sum_list (map weight children))"
| "weight (For children) = Suc (sum_list (map weight children))"
| "weight (While children) = Suc (sum_list (map weight children))"
| "weight (Other children) = Suc (sum_list (map weight children))"

text \<open>
  \<open>ast.walk\<close> keeps a queue: it takes the node at the front, puts the node's
  children at the back and yields the node. The traversal is breadth-first.
\<close>

function walk_queue :: "node list \<Rightarrow> node list" where
  "walk_queue [] = []"
| "walk_queue (n # todo) = n # walk_queue (todo @ iter_child_nodes n)"
  by pat_completeness auto
termination
proof (relation "measure (\<lambda>todo. sum_list (map weight todo))")
  show "wf (measure (\<lambda>todo. sum_list (map weight todo)))"
    by simp
next
  fix n todo
  have "sum_list (map weight (iter_child_nodes n)) < weight n"
    by (cases n) (simp_all add: comp_def sum_list_triv)
  then show "(todo @ iter_child_nodes n, n # todo) \<in> measure (\<lambda>todo. sum_list (map weight todo))"
    by simp
qed

definition walk :: "node \<Rightarrow> node list" where
  "walk tree = walk_queue [tree]"

section \<open>The structural inspector\<close>

text \<open>The body of the loop of \<open>_calculate_complexity\<close>, one node at a time.\<close>

fun complexity_step :: "node \<Rightarrow> complexity \<Rightarrow> complexity" where
  "complexity_step (If _) c = c\<lparr>cx_branches := cx_branches c + 1\<rparr>"
| "complexity_step (Try _) c = c\<lparr>cx_branches := cx_branches c + 1\<rparr>"
| "complexity_step (ExceptHandler _) c = c\<lparr>cx_branches := cx_branches c + 1\<rparr>"
| "complexity_step (For _) c = c\<lparr>cx_loops := cx_loops c + 1\<rparr>"
| "complexity_step (While _) c = c\<lparr>cx_loops := cx_loops c + 1\<rparr>"
| "complexity_step (FunctionDef _ _ _ _) c = c\<lparr>cx_functions := cx_functions c + 1\<rparr>"
| "complexity_step (ClassDef _ _ _ _ _) c = c\<lparr>cx_classes := cx_classes c + 1\<rparr>"
| "complexity_step _ c = c"

definition calculate_complexity :: "node \<Rightarrow> complexity" where
  "calculate_complexity tree =
     fold complexity_step (walk tree)
       \<lparr>cx_branches = 0, cx_loops = 0, cx_functions = 0, cx_classes = 0\<rparr>"

text \<open>\<open>f"{node.module}"\<close>: the text of the module name, \<open>None\<close> when there is none.\<close>

fun str_module :: "string option \<Rightarrow> string" where
  "str_module None = ''None''"
| "str_module (Some m) = m"

text \<open>\<open>[n.name for n in node.body if isinstance(n, ast.FunctionDef)]\<close>\<close>

fun method_names :: "node list \<Rightarrow> string list" where
  "method_names [] = []"
| "method_names (FunctionDef name _ _ _ # ns) = name # method_names ns"
| "method_names (_ # ns) = method_names ns"

text \<open>The body of the loop of \<open>_analyze_ast\<close>.\<close>

fun analyze_step :: "node \<Rightarrow> analysis \<Rightarrow> analysis" where
  "analyze_step (Import names) a = a\<lparr>an_imports := an_imports a @ names\<rparr>"
| "analyze_step (ImportFrom module name names) a =
     a\<lparr>an_imports := an_imports a @ [str_module module @ ''.'' @ name]\<rparr>"
| "analyze_step (FunctionDef name args children lineno) a =
     a\<lparr>an_functions := an_functions a @
          [\<lparr>fn_name = name, fn_args = args, fn_lineno = lineno\<rparr>]\<rparr>"
| "analyze_step (ClassDef name before body after lineno) a =
     a\<lparr>an_classes := an_classes a @
          [\<lparr>cls_name = name, cls_methods = method_names body, cls_lineno = lineno\<rparr>]\<rparr>"
| "analyze_step _ a = a"

text \<open>
  \<open>_analyze_ast\<close>, with the parser \<open>ast.parse\<close> as a parameter. Only a
  \<open>SyntaxError\<close> is caught; an exception of another class leaves the function.
\<close>

definition analyze_ast :: "(string \<Rightarrow> exn + node) \<Rightarrow> string \<Rightarrow> exn + ast_result" where
  "analyze_ast parse code =
     (case parse code of
        Inr tree \<Rightarrow>
          Inr (Analysis (fold analyze_step (walk tree)
                 \<lparr>an_imports = [], an_functions = [], an_classes = [],
                  an_complexity = calculate_complexity tree\<rparr>))
      | Inl (SyntaxError m) \<Rightarrow> Inr (AstError (''Syntax error: '' @ str_exn (SyntaxError m)))
      | Inl (Exception cls m) \<Rightarrow> Inl (Exception cls m))"

section \<open>The formatting adapter\<close>

text \<open>\<open>_run_black\<close>, with \<open>black.format_str\<close> (in the default mode) as a parameter.\<close>

definition run_black :: "(string \<Rightarrow> exn + string) \<Rightarrow> string \<Rightarrow> black_result" where
  "run_black format_str code =
     (case format_str code of
        Inr formatted \<Rightarrow>
          \<lparr>needs_formatting = Some (formatted \<noteq> code),
           formatted_code = Some formatted, error = None\<rparr>
      | Inl e \<Rightarrow>
          \<lparr>needs_formatting = Some True, formatted_code = None, error = Some (str_exn e)\<rparr>)"

section \<open>The environment and the external tools\<close>

text \<open>
  What the adapters touch outside the process: the files by path, the paths that cannot
  be opened for writing, and the text waiting on standard input.
\<close>

record env =
  files :: "string \<Rightarrow> string option"
  unwritable :: "string list"
  stdin :: string

text \<open>\<open>with open(file_path, 'w') as f: f.write(code)\<close>\<close>

definition write_file :: "env \<Rightarrow> string \<Rightarrow> string \<Rightarrow> exn + env" where
  "write_file e path content =
     (if path \<in> set (unwritable e) then Inl (Exception ''OSError'' path)
      else Inr (e\<lparr>files := (files e)(path \<mapsto> content)\<rparr>))"

text \<open>The reporter object held by the analyzer; the adapter returns its \<open>messages\<close>.\<close>

record reporter =
  messages :: "pylint_msg list"

definition JSONReporter :: reporter where
  "JSONReporter = \<lparr>messages = []\<rparr>"

record CodeAnalyzer =
  pylint_reporter :: reporter

text \<open>\<open>CodeAnalyzer.__init__\<close>\<close>

definition init :: CodeAnalyzer where
  "init = \<lparr>pylint_reporter = JSONReporter\<rparr>"

text \<open>One issue object of the security scanner.\<close>

record Issue =
  iss_text :: string
  iss_severity :: string
  iss_confidence :: string
  iss_lineno :: int
  iss_col_offset :: int

text \<open>
  The manager object of the security scanner, as far as the adapter touches it: the
  two attributes the adapter assigns and the issues collected by \<open>run_tests\<close>.
\<close>

record BanditManager =
  files_list :: "string list"
  files_data :: "(string \<times> string) list"
  mgr_results :: "Issue list"

definition new_BanditManager :: BanditManager where
  "new_BanditManager = \<lparr>files_list = [], files_data = [], mgr_results = []\<rparr>"

definition discover_files :: "string list \<Rightarrow> BanditManager \<Rightarrow> BanditManager" where
  "discover_files targets m = m\<lparr>files_list := targets\<rparr>"

definition get_issue_list :: "BanditManager \<Rightarrow> Issue list" where
  "get_issue_list m = mgr_results m"

text \<open>
  The third-party tools are parameters of the model.
  \<^item> \<open>pylint_Run e args rep\<close>: \<open>pylint.lint.Run(args, reporter=rep, do_exit=False)\<close>
    in environment \<open>e\<close>; it yields the exception it raised, if any, and the reporter as
    the run leaves it.
  \<^item> \<open>set_source rep code\<close>: the call \<open>rep.set_source(code)\<close>.
  \<^item> \<open>scan_files e fs\<close>: the issues that the scanner's tests find in the files
    \<open>fs\<close> in environment \<open>e\<close>, or the exception raised.
  \<^item> \<open>black_format_str\<close>: \<open>black.format_str\<close>; \<open>ast_parse\<close>: \<open>ast.parse\<close>.
\<close>

record tools =
  pylint_Run :: "env \<Rightarrow> string list \<Rightarrow> reporter \<Rightarrow> exn option \<times> reporter"
  set_source :: "reporter \<Rightarrow> string \<Rightarrow> exn option \<times> reporter"
  scan_files :: "env \<Rightarrow> string list \<Rightarrow> exn + Issue list"
  black_format_str :: "string \<Rightarrow> exn + string"
  ast_parse :: "string \<Rightarrow> exn + node"

text \<open>\<open>b_mgr.run_tests()\<close>: scan the discovered files and keep the issues.\<close>

definition run_tests :: "tools \<Rightarrow> env \<Rightarrow> BanditManager \<Rightarrow> exn + BanditManager" where
  "run_tests T e m =
     (case scan_files T e (files_list m) of
        Inl x \<Rightarrow> Inl x
      | Inr found \<Rightarrow> Inr (m\<lparr>mgr_results := mgr_results m @ found\<rparr>))"

text \<open>\<open>if file_path:\<close> is false for \<open>None\<close> and for the empty string.\<close>

fun given_path :: "string option \<Rightarrow> string option" where
  "given_path None = None"
| "given_path (Some p) = (if p = [] then None else Some p)"

section \<open>The lint adapter\<close>

text \<open>
  \<open>_run_pylint\<close>. The run is handed the reporter stored in the analyzer, and the
  adapter returns that reporter's message list.
\<close>

definition run_pylint ::
  "tools \<Rightarrow> string \<Rightarrow> string option \<Rightarrow> CodeAnalyzer \<Rightarrow> env
     \<Rightarrow> (exn + pylint_msg list) \<times> CodeAnalyzer \<times> env" where
  "run_pylint T code file_path self e =
     (case given_path file_path of
        Some p \<Rightarrow>
          (case write_file e p code of
             Inl x \<Rightarrow> (Inl x, self, e)
           | Inr e' \<Rightarrow>
               (case pylint_Run T e' [p] (pylint_reporter self) of
                  (Some x, rep) \<Rightarrow> (Inl x, self\<lparr>pylint_reporter := rep\<rparr>, e')
                | (None, rep) \<Rightarrow> (Inr (messages rep), self\<lparr>pylint_reporter := rep\<rparr>, e')))
      | None \<Rightarrow>
          (case pylint_Run T e [''--from-stdin''] (pylint_reporter self) of
             (Some x, rep) \<Rightarrow> (Inl x, self\<lparr>pylint_reporter := rep\<rparr>, e)
           | (None, rep) \<Rightarrow>
               (case set_source T rep code of
                  (Some x, rep') \<Rightarrow> (Inl x, self\<lparr>pylint_reporter := rep'\<rparr>, e)
                | (None, rep') \<Rightarrow> (Inr (messages rep'), self\<lparr>pylint_reporter := rep'\<rparr>, e))))"

section \<open>The security adapter\<close>

definition issue_dict :: "Issue \<Rightarrow> bandit_issue" where
  "issue_dict i =
     \<lparr>issue = iss_text i, severity = iss_severity i, confidence = iss_confidence i,
      line = iss_lineno i, col = iss_col_offset i\<rparr>"

text \<open>
  \<open>_run_bandit\<close>. With a path the text is written to the file before the scan. Without
  one the manager scans the target \<open>-\<close>, and the two attributes are assigned after
  \<open>run_tests\<close> has returned.
\<close>

definition run_bandit ::
  "tools \<Rightarrow> string \<Rightarrow> string option \<Rightarrow> env \<Rightarrow> (exn + bandit_issue list) \<times> env" where
  "run_bandit T code file_path e =
     (case given_path file_path of
        Some p \<Rightarrow>
          (case write_file e p code of
             Inl x \<Rightarrow> (Inl x, e)
           | Inr e' \<Rightarrow>
               (case run_tests T e' (discover_files [p] new_BanditManager) of
                  Inl x \<Rightarrow> (Inl x, e')
                | Inr b_mgr \<Rightarrow> (Inr (map issue_dict (get_issue_list b_mgr)), e')))
      | None \<Rightarrow>
          (case run_tests T e (discover_files [''-''] new_BanditManager) of
             Inl x \<Rightarrow> (Inl x, e)
           | Inr b_mgr \<Rightarrow>
               (let b_mgr = b_mgr\<lparr>files_list := [''-'']\<rparr>;
                    b_mgr = b_mgr\<lparr>files_data := [(''-'', code)]\<rparr>
                in (Inr (map issue_dict (get_issue_list b_mgr)), e))))"

section \<open>The aggregator\<close>

text \<open>
  \<open>analyze_code\<close>: the four entries of the dictionary are evaluated in the order
  written. There is no handler, so the first exception that reaches this function
  leaves it.
\<close>

definition analyze_code ::
  "tools \<Rightarrow> string \<Rightarrow> string option \<Rightarrow> CodeAnalyzer \<Rightarrow> env
     \<Rightarrow> (exn + results) \<times> CodeAnalyzer \<times> env" where
  "analyze_code T code file_path self e =
     (case run_pylint T code file_path self e of
        (Inl x, self1, e1) \<Rightarrow> (Inl x, self1, e1)
      | (Inr p, self1, e1) \<Rightarrow>
          (case run_bandit T code file_path e1 of
             (Inl x, e2) \<Rightarrow> (Inl x, self1, e2)
           | (Inr b, e2) \<Rightarrow>
               (let bl = run_black (black_format_str T) code in
                case analyze_ast (ast_parse T) code of
                  Inl x \<Rightarrow> (Inl x, self1, e2)
                | Inr a \<Rightarrow>
                    (Inr \<lparr>pylint = Some p, bandit = Some b, black = Some bl,
                          ast_analysis = Some a\<rparr>, self1, e2))))"

section \<open>The report formatter\<close>

definition nl :: string where
  "nl = [CHR 0x0A]"

definition pylint_header :: string where
  "pylint_header = ''=== Pylint Analysis ===''"

definition bandit_header :: string where
  "bandit_header = nl @ ''=== Security Analysis (Bandit) ===''"

definition black_header :: string where
  "black_header = nl @ ''=== Code Formatting (Black) ===''"

definition ast_header :: string where
  "ast_header = nl @ ''=== Code Structure Analysis ===''"

definition pylint_line :: "pylint_msg \<Rightarrow> string" where
  "pylint_line msg =
     ''['' @ upper (msg_type msg) @ ''] Line '' @ str_int (msg_line msg) @ '': '' @
     msg_message msg"

definition bandit_line :: "bandit_issue \<Rightarrow> string" where
  "bandit_line i =
     ''['' @ severity i @ ''] Line '' @ str_int (line i) @ '': '' @ issue i @
     '' (Confidence: '' @ confidence i @ '')''"

text \<open>
  Each block of \<open>format_code_analysis_results\<close> takes the list \<open>output\<close> and
  returns it extended. \<open>results.get(k)\<close> is false for a missing key, an empty list,
  an empty dictionary and an empty string.
\<close>

definition pylint_block :: "results \<Rightarrow> string list \<Rightarrow> string list" where
  "pylint_block r output =
     (case pylint r of
        None \<Rightarrow> output
      | Some msgs \<Rightarrow>
          (if msgs = [] then output
           else fold (\<lambda>msg out. out @ [pylint_line msg]) msgs (output @ [pylint_header])))"

definition bandit_block :: "results \<Rightarrow> string list \<Rightarrow> string list" where
  "bandit_block r output =
     (case bandit r of
        None \<Rightarrow> output
      | Some issues \<Rightarrow>
          (if issues = [] then output
           else fold (\<lambda>i out. out @ [bandit_line i]) issues (output @ [bandit_header])))"

text \<open>A dictionary is false when it has no key at all.\<close>

definition black_empty :: "black_result \<Rightarrow> bool" where
  "black_empty b \<longleftrightarrow> needs_formatting b = None \<and> formatted_code b = None \<and> error b = None"

definition black_block :: "results \<Rightarrow> string list \<Rightarrow> string list" where
  "black_block r output =
     (case black r of
        None \<Rightarrow> output
      | Some black_results \<Rightarrow>
          (if black_empty black_results then output
           else
             (let output = output @ [black_header];
                  output =
                    (if needs_formatting black_results = Some True
                     then output @
                       [''Code needs formatting. Consider using Black to format the code.'']
                     else output)
              in case error black_results of
                   None \<Rightarrow> output
                 | Some err \<Rightarrow>
                     (if err = [] then output
                      else output @ [''Error during formatting check: '' @ err]))))"

definition function_line :: "function_info \<Rightarrow> string" where
  "function_line func = ''  - '' @ fn_name func @ ''('' @ join '', '' (fn_args func) @ '')''"

definition class_lines :: "class_info \<Rightarrow> string list \<Rightarrow> string list" where
  "class_lines cls output =
     fold (\<lambda>method out. out @ [''    * '' @ method]) (cls_methods cls)
       (output @ [''  - '' @ cls_name cls])"

definition structure_lines :: "analysis \<Rightarrow> string list \<Rightarrow> string list" where
  "structure_lines ast_results output =
     (let cx = an_complexity ast_results;
          output = output @ [ast_header];
          output = output @ [''Functions: '' @ str_nat (cx_functions cx)];
          output = output @ [''Classes: '' @ str_nat (cx_classes cx)];
          output = output @ [''Branches: '' @ str_nat (cx_branches cx)];
          output = output @ [''Loops: '' @ str_nat (cx_loops cx)];
          output =
            (if an_imports ast_results = [] then output
             else fold (\<lambda>imp out. out @ [''  - '' @ imp]) (an_imports ast_results)
                    (output @ [nl @ ''Imports:'']));
          output =
            (if an_functions ast_results = [] then output
             else fold (\<lambda>func out. out @ [function_line func]) (an_functions ast_results)
                    (output @ [nl @ ''Functions:'']))
      in if an_classes ast_results = [] then output
         else fold class_lines (an_classes ast_results) (output @ [nl @ ''Classes:'']))"

definition ast_block :: "results \<Rightarrow> string list \<Rightarrow> string list" where
  "ast_block r output =
     (case ast_analysis r of
        None \<Rightarrow> output
      | Some (AstError _) \<Rightarrow> output
      | Some (Analysis ast_results) \<Rightarrow> structure_lines ast_results output)"

definition format_code_analysis_results :: "results \<Rightarrow> string" where
  "format_code_analysis_results r =
     join nl (ast_block r (black_block r (bandit_block r (pylint_block r []))))"

section \<open>Reference notions for the structural inspector\<close>

text \<open>What one node contributes to the import list and to the function inventory.\<close>

fun import_entries :: "node \<Rightarrow> string list" where
  "import_entries (Import names) = names"
| "import_entries (ImportFrom module name names) = [str_module module @ ''.'' @ name]"
| "import_entries _ = []"

fun function_entries :: "node \<Rightarrow> function_info list" where
  "function_entries (FunctionDef name args children lineno) =
     [\<lparr>fn_name = name, fn_args = args, fn_lineno = lineno\<rparr>]"
| "function_entries _ = []"

text \<open>
  Source order: a statement comes before the statements nested in it, and these before
  the statement that follows it. This is the depth-first order of the tree, parent first.
\<close>

function preorder :: "node \<Rightarrow> node list" where
  "preorder n = n # concat (map preorder (iter_child_nodes n))"
  by pat_completeness auto
termination
proof (relation "measure weight")
  show "wf (measure weight)"
    by simp
next
  fix n c
  assume c: "c \<in> set (iter_child_nodes n)"
  then have "weight c \<le> sum_list (map weight (iter_child_nodes n))"
    by (simp add: member_le_sum_list)
  moreover have "sum_list (map weight (iter_child_nodes n)) < weight n"
    by (cases n) (simp_all add: comp_def sum_list_triv)
  ultimately show "(c, n) \<in> measure weight"
    by simp
qed

declare preorder.simps [simp del]

definition source_order_imports :: "node \<Rightarrow> string list" where
  "source_order_imports tree = concat (map import_entries (preorder tree))"

text \<open>
  The statement that the import list of a parsed text is in source order, as a
  predicate of the parser and the text.
\<close>

definition records_imports_in_source_order :: "(string \<Rightarrow> exn + node) \<Rightarrow> string \<Rightarrow> bool" where
  "records_imports_in_source_order parse code =
     (case parse code of
        Inl _ \<Rightarrow> True
      | Inr tree \<Rightarrow>
          (case analyze_ast parse code of
             Inr (Analysis an) \<Rightarrow> an_imports an = source_order_imports tree
           | _ \<Rightarrow> False))"

text \<open>No import statement lies below one of the statements \<open>body\<close>.\<close>

definition imports_at_top_level :: "node list \<Rightarrow> bool" where
  "imports_at_top_level body =
     list_all (\<lambda>c. list_all (\<lambda>d. import_entries d = [])
                 (concat (map preorder (iter_child_nodes c)))) body"

text \<open>
  The nodes \<open>d\<close> levels below a node, in the order of the child lists, and the import
  entries they contribute.
\<close>

fun nodes_at_depth :: "nat \<Rightarrow> node \<Rightarrow> node list" where
  "nodes_at_depth 0 n = [n]"
| "nodes_at_depth (Suc d) n = concat (map (nodes_at_depth d) (iter_child_nodes n))"

definition imports_at_depth :: "nat \<Rightarrow> node \<Rightarrow> string list" where
  "imports_at_depth d tree = concat (map import_entries (nodes_at_depth d tree))"

section \<open>Sample inputs\<close>

text \<open>
  Four source texts with the trees and errors that \<open>ast.parse\<close> gives for them.
  \<open>scenario_code\<close> is \<open>import os / def f(a, b): / pass\<close>; its function node has
  the \<open>arguments\<close> node with two \<open>arg\<close> nodes and the \<open>pass\<close> statement as
  children. \<open>nested_code\<close> is \<open>def f(): / import a\<close> followed by \<open>import b\<close> at
  top level. \<open>relative_code\<close> is \<open>from . import y, z\<close>. \<open>invalid_code\<close> is
  \<open>def f(:\<close>. The sample parser knows these texts only and reports every other text
  as a syntax error.
\<close>

definition scenario_code :: string where
  "scenario_code = ''import os'' @ nl @ ''def f(a, b):'' @ nl @ ''    pass'' @ nl"

definition scenario_tree :: node where
  "scenario_tree =
     Other [Import [''os''],
            FunctionDef ''f'' [''a'', ''b''] [Other [Other [], Other []], Other []] 2]"

definition invalid_code :: string where
  "invalid_code = ''def f(:'' @ nl"

definition nested_code :: string where
  "nested_code = ''def f():'' @ nl @ ''    import a'' @ nl @ ''import b'' @ nl"

definition nested_import_tree :: node where
  "nested_import_tree =
     Other [FunctionDef ''f'' [] [Other [], Import [''a'']] 1, Import [''b'']]"

definition relative_code :: string where
  "relative_code = ''from . import y, z'' @ nl"

definition relative_tree :: node where
  "relative_tree = Other [ImportFrom None ''y'' [''z'']]"

definition sample_parse :: "string \<Rightarrow> exn + node" where
  "sample_parse code =
     (if code = scenario_code then Inr scenario_tree
      else if code = nested_code then Inr nested_import_tree
      else if code = relative_code then Inr relative_tree
      else Inl (SyntaxError ''invalid syntax (<unknown>, line 1)''))"

text \<open>
  A text of 100000 minus signs before a digit is a valid expression, yet the parser
  runs out of stack on it and raises \<open>MemoryError\<close>, whose text is empty.
\<close>

definition deep_code :: string where
  "deep_code = replicate 100000 (CHR ''-'') @ ''1''"

definition stack_limited_parse :: "string \<Rightarrow> exn + node" where
  "stack_limited_parse code =
     (if code = deep_code then Inl (Exception ''MemoryError'' [])
      else sample_parse code)"

text \<open>
  Two texts with several kinds of import. \<open>mixed_code\<close> is
  \<open>import os, sys / def f(): / from a.b import c, d / import e\<close> followed at top level
  by \<open>from . import y / import z\<close>. \<open>flat_code\<close> is
  \<open>import os, sys / from a.b import c, d / from . import y\<close>.
\<close>

definition mixed_code :: string where
  "mixed_code =
     ''import os, sys'' @ nl @ ''def f():'' @ nl @ ''    from a.b import c, d'' @ nl @
     ''    import e'' @ nl @ ''from . import y'' @ nl @ ''import z'' @ nl"

definition mixed_tree :: node where
  "mixed_tree =
     Other [Import [''os'', ''sys''],
            FunctionDef ''f'' []
              [Other [], ImportFrom (Some ''a.b'') ''c'' [''d''], Import [''e'']] 2,
            ImportFrom None ''y'' [],
            Import [''z'']]"

definition flat_code :: string where
  "flat_code =
     ''import os, sys'' @ nl @ ''from a.b import c, d'' @ nl @ ''from . import y'' @ nl"

definition flat_tree :: node where
  "flat_tree =
     Other [Import [''os'', ''sys''], ImportFrom (Some ''a.b'') ''c'' [''d''],
            ImportFrom None ''y'' []]"

definition import_sample_parse :: "string \<Rightarrow> exn + node" where
  "import_sample_parse code =
     (if code = mixed_code then Inr mixed_tree
      else if code = flat_code then Inr flat_tree
      else sample_parse code)"

text \<open>A text the formatter changes, and what the sample formatter does with each text.\<close>

definition unformatted_code :: string where
  "unformatted_code = ''x=1'' @ nl"

definition reformatted_code :: string where
  "reformatted_code = ''x = 1'' @ nl"

definition sample_format_str :: "string \<Rightarrow> exn + string" where
  "sample_format_str code =
     (if code = invalid_code then Inl (Exception ''InvalidInput'' ''Cannot parse: 1:6: def f(:'')
      else if code = unformatted_code then Inr reformatted_code
      else Inr code)"

text \<open>
  A text in which the security scanner finds a call of \<open>exec\<close>, and an environment
  with no file and nothing on standard input.
\<close>

definition exec_code :: string where
  "exec_code = ''exec(x)'' @ nl"

definition sample_env :: env where
  "sample_env = \<lparr>files = Map.empty, unwritable = [], stdin = []\<rparr>"

text \<open>
  The reporter protocol of the linter: a run hands each diagnostic to the reporter's
  \<open>handle_message\<close>, which appends it to \<open>messages\<close>; nothing in a run clears
  the list. \<open>emit\<close> gives the diagnostics of one run.
\<close>

definition appending_Run ::
  "(env \<Rightarrow> string list \<Rightarrow> pylint_msg list) \<Rightarrow> env \<Rightarrow> string list \<Rightarrow> reporter
     \<Rightarrow> exn option \<times> reporter" where
  "appending_Run emit e args rep = (None, rep\<lparr>messages := messages rep @ emit e args\<rparr>)"

text \<open>
  The scanner and the linter read a target from the file system; the target \<open>-\<close>
  stands for standard input.
\<close>

definition read_target :: "env \<Rightarrow> string \<Rightarrow> string" where
  "read_target e f =
     (if f = ''-'' then stdin e else (case files e f of None \<Rightarrow> [] | Some c \<Rightarrow> c))"

definition sample_lint :: "env \<Rightarrow> string list \<Rightarrow> pylint_msg list" where
  "sample_lint e args =
     (case args of
        [a] \<Rightarrow>
          (if read_target e (if a = ''--from-stdin'' then ''-'' else a) = scenario_code
           then [\<lparr>msg_type = ''convention'', msg_message = ''Missing module docstring'',
                   msg_line = 1\<rparr>,
                 \<lparr>msg_type = ''warning'', msg_message = ''Unused import os'', msg_line = 1\<rparr>]
           else [])
      | _ \<Rightarrow> [])"

definition sample_issues :: "string \<Rightarrow> Issue list" where
  "sample_issues content =
     (if content = exec_code
      then [\<lparr>iss_text = ''Use of exec detected.'', iss_severity = ''MEDIUM'',
              iss_confidence = ''HIGH'', iss_lineno = 1, iss_col_offset = 0\<rparr>]
      else [])"

definition sample_scan :: "env \<Rightarrow> string list \<Rightarrow> exn + Issue list" where
  "sample_scan e fs = Inr (concat (map (\<lambda>f. sample_issues (read_target e f)) fs))"

definition sample_tools :: tools where
  "sample_tools =
     \<lparr>pylint_Run = appending_Run sample_lint,
      set_source = (\<lambda>rep code. (None, rep)),
      scan_files = sample_scan,
      black_format_str = sample_format_str,
      ast_parse = sample_parse\<rparr>"

text \<open>The same tools, with a linter that raises.\<close>

definition crashing_tools :: tools where
  "crashing_tools =
     sample_tools\<lparr>pylint_Run :=
       (\<lambda>e args rep. (Some (Exception ''RuntimeError'' ''linter crashed''), rep))\<rparr>"

text \<open>
  The lint lists returned by two calls of \<open>analyze_code\<close> in sequence on one analyzer
  with the same arguments, each taken at the moment its call returns.
\<close>

definition two_calls_pylint ::
  "tools \<Rightarrow> string \<Rightarrow> string option \<Rightarrow> CodeAnalyzer \<Rightarrow> env
     \<Rightarrow> (pylint_msg list option) \<times> (pylint_msg list option)" where
  "two_calls_pylint T code file_path self e =
     (case analyze_code T code file_path self e of
        (Inl _, self1, e1) \<Rightarrow> (None, None)
      | (Inr r1, self1, e1) \<Rightarrow>
          (case analyze_code T code file_path self1 e1 of
             (Inl _, _, _) \<Rightarrow> (pylint r1, None)
           | (Inr r2, _, _) \<Rightarrow> (pylint r1, pylint r2)))"

text \<open>Two result dictionaries for the report formatter.\<close>

definition sample_results :: results where
  "sample_results =
     \<lparr>pylint = Some [\<lparr>msg_type = ''warning'', msg_message = ''Unused import os'', msg_line = 1\<rparr>],
      bandit = Some [\<lparr>issue = ''Use of exec detected.'', severity = ''MEDIUM'',
                       confidence = ''HIGH'', line = 1, col = 0\<rparr>],
      black = Some \<lparr>needs_formatting = Some True, formatted_code = None,
                     error = Some ''Cannot parse''\<rparr>,
      ast_analysis = Some (Analysis
        \<lparr>an_imports = [''os''],
         an_functions = [\<lparr>fn_name = ''f'', fn_args = [''a'', ''b''], fn_lineno = 2\<rparr>],
         an_classes = [\<lparr>cls_name = ''C'', cls_methods = [''m''], cls_lineno = 5\<rparr>],
         an_complexity =
           \<lparr>cx_branches = 0, cx_loops = 0, cx_functions = 1, cx_classes = 1\<rparr>\<rparr>)\<rparr>"

definition degraded_results :: results where
  "degraded_results =
     \<lparr>pylint = Some [], bandit = Some [],
      black = Some \<lparr>needs_formatting = Some True, formatted_code = None,
                     error = Some ''Cannot parse''\<rparr>,
      ast_analysis = Some (AstError ''Syntax error: invalid syntax'')\<rparr>"

section \<open>Properties of the suggestion deriver\<close>

lemma fold_pylint_step:
  "fold pylint_step msgs acc =
     acc @ map pylint_suggestion
             (filter (\<lambda>m. msg_type m = ''error'' \<or> msg_type m = ''warning'') msgs)"
  by (induction msgs arbitrary: acc) (simp_all add: pylint_step_def)

lemma fold_bandit_step:
  "fold bandit_step issues acc =
     acc @ map bandit_suggestion
             (filter (\<lambda>i. severity i = ''HIGH'' \<or> severity i = ''MEDIUM'') issues)"
  by (induction issues arbitrary: acc) (simp_all add: bandit_step_def)

text \<open>
  Claim C2. For a result dictionary with all four entries,
  \<open>get_improvement_suggestions\<close> returns the concatenation of four groups, in this
  order: one \<open>Pylint <type>: <message> (line <line>)\<close> string for each pylint message
  of type \<open>error\<close> or \<open>warning\<close> and none for a message of any other type; one
  \<open>Security issue (<severity>): <issue> (line <line>, confidence: <confidence>)\<close>
  string for each security issue of severity \<open>HIGH\<close> or \<open>MEDIUM\<close> and none for any
  other severity; the formatting advice exactly when \<open>needs_formatting\<close> is true; and,
  only when the structural entry is no parse error, the module advice when there are
  more than 10 functions followed by the complexity advice when there are more than 5
  branches.
\<close>

theorem suggestions_rule_groups:
  "get_improvement_suggestions
     \<lparr>pylint = Some msgs, bandit = Some issues, black = Some b, ast_analysis = Some a\<rparr> =
   Inr (map pylint_suggestion
          (filter (\<lambda>m. msg_type m = ''error'' \<or> msg_type m = ''warning'') msgs) @
        map bandit_suggestion
          (filter (\<lambda>i. severity i = ''HIGH'' \<or> severity i = ''MEDIUM'') issues) @
        (if needs_formatting b = Some True then [black_advice] else []) @
        (case a of
           AstError _ \<Rightarrow> []
         | Analysis an \<Rightarrow>
             (if cx_functions (an_complexity an) > 10 then [modules_advice] else []) @
             (if cx_branches (an_complexity an) > 5 then [complexity_advice] else [])))"
  by (cases a; cases "needs_formatting b")
     (simp_all add: get_improvement_suggestions_def fold_pylint_step fold_bandit_step
        black_suggestions_def ast_suggestions_def Let_def)

text \<open>
  The four groups on a concrete dictionary: a warning and a convention message, a
  \<open>HIGH\<close> and a \<open>LOW\<close> issue, a failed formatting run, 11 functions and 6 branches.
\<close>

theorem suggestions_rule_groups_witness:
  "get_improvement_suggestions
     \<lparr>pylint = Some [\<lparr>msg_type = ''warning'', msg_message = ''unused import'', msg_line = 3\<rparr>,
                     \<lparr>msg_type = ''convention'', msg_message = ''no docstring'', msg_line = 1\<rparr>],
      bandit = Some [\<lparr>issue = ''pickle'', severity = ''HIGH'', confidence = ''MEDIUM'',
                       line = 12, col = 0\<rparr>,
                     \<lparr>issue = ''assert'', severity = ''LOW'', confidence = ''HIGH'',
                       line = 4, col = 0\<rparr>],
      black = Some \<lparr>needs_formatting = Some True, formatted_code = None, error = Some ''bad''\<rparr>,
      ast_analysis = Some (Analysis \<lparr>an_imports = [], an_functions = [], an_classes = [],
         an_complexity = \<lparr>cx_branches = 6, cx_loops = 0, cx_functions = 11, cx_classes = 0\<rparr>\<rparr>)\<rparr> =
   Inr [''Pylint warning: unused import (line 3)'',
        ''Security issue (HIGH): pickle (line 12, confidence: MEDIUM)'',
        ''Code formatting: Consider using Black to format your code'',
        ''Consider breaking down the code into smaller modules'',
        ''High cyclomatic complexity detected. Consider simplifying the logic'']"
  using suggestions_rule_groups [of
     "[\<lparr>msg_type = ''warning'', msg_message = ''unused import'', msg_line = 3\<rparr>,
       \<lparr>msg_type = ''convention'', msg_message = ''no docstring'', msg_line = 1\<rparr>]"
     "[\<lparr>issue = ''pickle'', severity = ''HIGH'', confidence = ''MEDIUM'', line = 12, col = 0\<rparr>,
       \<lparr>issue = ''assert'', severity = ''LOW'', confidence = ''HIGH'', line = 4, col = 0\<rparr>]"
     "\<lparr>needs_formatting = Some True, formatted_code = None, error = Some ''bad''\<rparr>"
     "Analysis \<lparr>an_imports = [], an_functions = [], an_classes = [],
         an_complexity = \<lparr>cx_branches = 6, cx_loops = 0, cx_functions = 11, cx_classes = 0\<rparr>\<rparr>"]
  by (simp add: pylint_suggestion_def bandit_suggestion_def black_advice_def modules_advice_def
        complexity_advice_def str_int_def str_nat.simps digit_char_def)

section \<open>Properties of the structural inspector\<close>

lemma fold_analyze_step_imports:
  "an_imports (fold analyze_step ns a) = an_imports a @ concat (map import_entries ns)"
proof (induction ns arbitrary: a)
  case Nil
  show ?case by simp
next
  case (Cons n ns)
  show ?case by (cases n) (simp_all add: Cons.IH)
qed

lemma fold_analyze_step_functions:
  "an_functions (fold analyze_step ns a) = an_functions a @ concat (map function_entries ns)"
proof (induction ns arbitrary: a)
  case Nil
  show ?case by simp
next
  case (Cons n ns)
  show ?case by (cases n) (simp_all add: Cons.IH)
qed

lemma fold_analyze_step_complexity:
  "an_complexity (fold analyze_step ns a) = an_complexity a"
proof (induction ns arbitrary: a)
  case Nil
  show ?case by simp
next
  case (Cons n ns)
  show ?case by (cases n) (simp_all add: Cons.IH)
qed

lemma fold_complexity_step_functions:
  "cx_functions (fold complexity_step ns c) =
     cx_functions c + length (concat (map function_entries ns))"
proof (induction ns arbitrary: c)
  case Nil
  show ?case by simp
next
  case (Cons n ns)
  show ?case by (cases n) (simp_all add: Cons.IH)
qed

text \<open>The queue discipline: the nodes waiting in the queue come out first, in order.\<close>

lemma walk_queue_append:
  "walk_queue (xs @ ys) = xs @ walk_queue (ys @ concat (map iter_child_nodes xs))"
proof (induction xs arbitrary: ys)
  case Nil
  show ?case by simp
next
  case (Cons x xs)
  have "walk_queue ((x # xs) @ ys) = x # walk_queue (xs @ (ys @ iter_child_nodes x))"
    by simp
  also have "\<dots> =
      x # xs @ walk_queue ((ys @ iter_child_nodes x) @ concat (map iter_child_nodes xs))"
    by (simp only: Cons.IH)
  finally show ?case by simp
qed

lemma set_walk_queue: "set (walk_queue q) = (\<Union>n\<in>set q. set (preorder n))"
proof (induction q rule: walk_queue.induct)
  case 1
  show ?case by simp
next
  case (2 n todo)
  have "set (preorder n) = insert n (\<Union>c\<in>set (iter_child_nodes n). set (preorder c))"
    by (subst preorder.simps) simp
  with 2 show ?case by auto
qed

lemma entries_empty_concat:
  "(\<forall>d\<in>set ds. import_entries d = []) \<Longrightarrow> concat (map import_entries ds) = []"
  by (induction ds) simp_all

lemma entries_in_concat:
  "n \<in> set ns \<Longrightarrow> set (import_entries n) \<subseteq> set (concat (map import_entries ns))"
  by (induction ns) auto

lemma top_level_walk:
  assumes "imports_at_top_level body"
  shows "concat (map import_entries (walk (Other body))) = concat (map import_entries body)"
proof -
  have below: "\<forall>d\<in>set (walk_queue (concat (map iter_child_nodes body))). import_entries d = []"
    using assms by (auto simp: imports_at_top_level_def set_walk_queue list_all_iff)
  have "walk (Other body) = Other body # body @ walk_queue (concat (map iter_child_nodes body))"
    using walk_queue_append [of body "[]"] by (simp add: walk_def)
  then show ?thesis
    using entries_empty_concat [OF below] by simp
qed

lemma top_level_preorder:
  assumes "imports_at_top_level body"
  shows "source_order_imports (Other body) = concat (map import_entries body)"
proof -
  have "concat (map import_entries (concat (map preorder cs))) = concat (map import_entries cs)"
    if "imports_at_top_level cs" for cs
    using that
  proof (induction cs)
    case Nil
    show ?case by simp
  next
    case (Cons c cs)
    have "\<forall>d\<in>set (concat (map preorder (iter_child_nodes c))). import_entries d = []"
      using Cons.prems by (simp add: imports_at_top_level_def list_all_iff)
    then have "concat (map import_entries (concat (map preorder (iter_child_nodes c)))) = []"
      by (rule entries_empty_concat)
    then have "concat (map import_entries (preorder c)) = import_entries c"
      by (subst preorder.simps) simp
    moreover have "imports_at_top_level cs"
      using Cons.prems by (simp add: imports_at_top_level_def)
    ultimately show ?case using Cons.IH by simp
  qed
  from this [OF assms] show ?thesis
    by (subst source_order_imports_def, subst preorder.simps) simp
qed

text \<open>
  The traversal is level by level: all nodes at one depth, in the order of the child
  lists, then all nodes at the next depth.
\<close>

lemma children_weight_less:
  "sum_list (map weight (iter_child_nodes n)) < weight n"
  by (cases n) (simp_all add: comp_def sum_list_triv)

lemma queue_children_weight:
  "q \<noteq> [] \<Longrightarrow>
     sum_list (map weight (concat (map iter_child_nodes q))) < sum_list (map weight q)"
proof (induction q)
  case Nil
  then show ?case by simp
next
  case (Cons n q)
  show ?case
  proof (cases "q = []")
    case True
    then show ?thesis using children_weight_less [of n] by simp
  next
    case False
    then show ?thesis using Cons.IH children_weight_less [of n] by simp
  qed
qed

lemma depth_zero_queue: "concat (map (nodes_at_depth 0) q) = q"
  by (induction q) simp_all

lemma depth_Suc_queue:
  "concat (map (nodes_at_depth (Suc d)) q) =
     concat (map (nodes_at_depth d) (concat (map iter_child_nodes q)))"
  by (induction q) simp_all

lemma walk_queue_levels:
  "sum_list (map weight q) \<le> H \<Longrightarrow>
     walk_queue q = concat (map (\<lambda>d. concat (map (nodes_at_depth d) q)) [0..<H])"
proof (induction H arbitrary: q)
  case 0
  have "q = []"
  proof (cases q)
    case Nil
    then show ?thesis .
  next
    case (Cons n ns)
    have "0 < weight n" by (cases n) simp_all
    with Cons 0 show ?thesis by simp
  qed
  then show ?case by simp
next
  case (Suc H)
  show ?case
  proof (cases "q = []")
    case True
    then show ?thesis by simp
  next
    case False
    let ?q' = "concat (map iter_child_nodes q)"
    have "sum_list (map weight ?q') \<le> H"
      using queue_children_weight [OF False] Suc.prems by simp
    then have IH: "walk_queue ?q' =
        concat (map (\<lambda>d. concat (map (nodes_at_depth d) ?q')) [0..<H])"
      by (rule Suc.IH)
    have "walk_queue q = q @ walk_queue ?q'"
      using walk_queue_append [of q "[]"] by simp
    also have "\<dots> = q @ concat (map (\<lambda>d. concat (map (nodes_at_depth (Suc d)) q)) [0..<H])"
      by (simp only: IH depth_Suc_queue)
    also have "\<dots> = concat (map (\<lambda>d. concat (map (nodes_at_depth d) q)) (0 # map Suc [0..<H]))"
      by (simp add: comp_def depth_zero_queue)
    also have "0 # map Suc [0..<H] = [0..<Suc H]"
      by (simp add: upt_conv_Cons map_Suc_upt del: upt_Suc)
    finally show ?thesis .
  qed
qed

lemma walk_levels:
  "walk tree = concat (map (\<lambda>d. nodes_at_depth d tree) [0..<weight tree])"
  using walk_queue_levels [of "[tree]" "weight tree"] by (simp add: walk_def)

lemma entries_of_levels:
  "concat (map import_entries (concat (map g ds))) =
     concat (map (\<lambda>d. concat (map import_entries (g d))) ds)"
  by (induction ds) simp_all

lemma imports_levels:
  "concat (map import_entries (walk tree)) =
     concat (map (\<lambda>d. imports_at_depth d tree) [0..<weight tree])"
  unfolding imports_at_depth_def
  by (subst walk_levels) (rule entries_of_levels)


lemma import_sample_parse_mixed: "import_sample_parse mixed_code = Inr mixed_tree"
  by (simp add: import_sample_parse_def)

lemma import_sample_parse_flat: "import_sample_parse flat_code = Inr flat_tree"
  by (simp add: import_sample_parse_def flat_code_def mixed_code_def nl_def)

lemma sample_parse_scenario: "sample_parse scenario_code = Inr scenario_tree"
  by (simp add: sample_parse_def)

lemma sample_parse_nested: "sample_parse nested_code = Inr nested_import_tree"
  by (simp add: sample_parse_def nested_code_def scenario_code_def nl_def)

lemma sample_parse_relative: "sample_parse relative_code = Inr relative_tree"
  by (simp add: sample_parse_def nested_code_def scenario_code_def relative_code_def nl_def)

lemma sample_parse_invalid:
  "sample_parse invalid_code = Inl (SyntaxError ''invalid syntax (<unknown>, line 1)'')"
  by (simp add: sample_parse_def nested_code_def scenario_code_def relative_code_def
        invalid_code_def nl_def)

lemma stack_limited_parse_deep:
  "stack_limited_parse deep_code = Inl (Exception ''MemoryError'' [])"
  by (simp add: stack_limited_parse_def)

text \<open>
  The three sample texts analysed: the first scenario of the specification, the nested
  import and the relative import.
\<close>

lemma scenario_analysis:
  "analyze_ast sample_parse scenario_code =
     Inr (Analysis \<lparr>an_imports = [''os''],
            an_functions = [\<lparr>fn_name = ''f'', fn_args = [''a'', ''b''], fn_lineno = 2\<rparr>],
            an_classes = [],
            an_complexity =
              \<lparr>cx_branches = 0, cx_loops = 0, cx_functions = 1, cx_classes = 0\<rparr>\<rparr>)"
  by (simp add: analyze_ast_def sample_parse_scenario scenario_tree_def walk_def
        calculate_complexity_def)

lemma nested_analysis:
  "analyze_ast sample_parse nested_code =
     Inr (Analysis \<lparr>an_imports = [''b'', ''a''],
            an_functions = [\<lparr>fn_name = ''f'', fn_args = [], fn_lineno = 1\<rparr>],
            an_classes = [],
            an_complexity =
              \<lparr>cx_branches = 0, cx_loops = 0, cx_functions = 1, cx_classes = 0\<rparr>\<rparr>)"
  by (simp add: analyze_ast_def sample_parse_nested nested_import_tree_def walk_def
        calculate_complexity_def)

lemma relative_analysis:
  "analyze_ast sample_parse relative_code =
     Inr (Analysis \<lparr>an_imports = [''None.y''], an_functions = [], an_classes = [],
            an_complexity =
              \<lparr>cx_branches = 0, cx_loops = 0, cx_functions = 0, cx_classes = 0\<rparr>\<rparr>)"
  by (simp add: analyze_ast_def sample_parse_relative relative_tree_def walk_def
        calculate_complexity_def)

text \<open>
  Claim C3, as stated, fails: the claim has \<open>_analyze_ast\<close> return a summary for every
  input string and never raise. The handler names \<open>SyntaxError\<close> only, so on the
  deeply nested text, where the parser raises \<open>MemoryError\<close>, the exception leaves
  the function.
\<close>

theorem analyze_ast_raises_counterexample:
  "analyze_ast stack_limited_parse deep_code = Inl (Exception ''MemoryError'' [])"
  by (simp add: analyze_ast_def stack_limited_parse_deep)

text \<open>
  Claim C3, amended. \<open>_analyze_ast\<close> returns a dictionary exactly when the parser
  returns a tree or raises \<open>SyntaxError\<close>. On a \<open>SyntaxError\<close> the dictionary
  holds the single key \<open>error\<close> with the text \<open>Syntax error: \<close> followed by the text
  of the error, and no imports, functions, classes or complexity entry. An exception of
  any other class raised by the parser leaves the function unchanged.
\<close>

theorem analyze_ast_syntax_error_only:
  "((\<exists>r. analyze_ast parse code = Inr r) \<longleftrightarrow> (\<forall>cls m. parse code \<noteq> Inl (Exception cls m))) \<and>
   (parse code = Inl (SyntaxError m) \<longrightarrow>
      analyze_ast parse code = Inr (AstError (''Syntax error: '' @ m))) \<and>
   (parse code = Inl (Exception cls m) \<longrightarrow> analyze_ast parse code = Inl (Exception cls m))"
  by (auto simp: analyze_ast_def split: sum.splits exn.splits)

theorem analyze_ast_syntax_error_only_witness:
  "analyze_ast sample_parse invalid_code =
     Inr (AstError ''Syntax error: invalid syntax (<unknown>, line 1)'') \<and>
   analyze_ast stack_limited_parse deep_code = Inl (Exception ''MemoryError'' [])"
  using analyze_ast_syntax_error_only
          [where parse = sample_parse and code = invalid_code
             and m = "''invalid syntax (<unknown>, line 1)''"]
        analyze_ast_syntax_error_only
          [where parse = stack_limited_parse and code = deep_code and cls = "''MemoryError''"
             and m = "[]"]
  by (simp add: sample_parse_invalid stack_limited_parse_deep)

text \<open>
  Claim C4. When the parser returns a tree for the text, \<open>_analyze_ast\<close> returns the
  analysis dictionary, without an \<open>error\<close> key, and the function counter of
  \<open>_calculate_complexity\<close> equals the length of the function inventory.
\<close>

theorem function_count_matches:
  assumes "parse code = Inr tree"
  shows "\<exists>an. analyze_ast parse code = Inr (Analysis an) \<and>
           cx_functions (an_complexity an) = length (an_functions an)"
  using assms
  by (simp add: analyze_ast_def fold_analyze_step_complexity fold_analyze_step_functions
        calculate_complexity_def fold_complexity_step_functions)

theorem function_count_matches_witness:
  "sample_parse scenario_code = Inr scenario_tree \<and>
   (\<exists>an. analyze_ast sample_parse scenario_code = Inr (Analysis an) \<and>
      cx_functions (an_complexity an) = length (an_functions an))"
  using function_count_matches [of sample_parse scenario_code scenario_tree]
  by (simp add: sample_parse_scenario)

text \<open>
  Claim C8, as stated, fails: the import list is not in source order. In
  \<open>nested_code\<close> the statement \<open>import a\<close> inside the function comes first in the
  source, but the breadth-first traversal reaches the top-level \<open>import b\<close> before it.
\<close>

theorem imports_source_order_counterexample:
  "\<not> records_imports_in_source_order sample_parse nested_code"
  by (simp add: records_imports_in_source_order_def sample_parse_nested analyze_ast_def
        nested_import_tree_def walk_def source_order_imports_def calculate_complexity_def
        preorder.simps)

text \<open>
  Claim C8, amended. For a parsed text the import list holds the entries of the import
  statements in the order in which \<open>ast.walk\<close> yields them, which is breadth-first:
  the entries of the imports at depth 0, then those at depth 1, then those at depth 2
  and so on, each depth in the order of the child lists. An entry is every name of a
  plain import statement, and for a from-import the single string \<open>X.Y\<close> of its module
  and its first name. When the tree is a module in which no import statement is nested
  below a top-level statement, this order is the source order.
\<close>

theorem imports_in_walk_order:
  assumes "parse code = Inr tree"
  shows "\<exists>an. analyze_ast parse code = Inr (Analysis an) \<and>
           an_imports an = concat (map import_entries (walk tree)) \<and>
           an_imports an = concat (map (\<lambda>d. imports_at_depth d tree) [0..<weight tree]) \<and>
           (\<forall>body. tree = Other body \<and> imports_at_top_level body \<longrightarrow>
              an_imports an = source_order_imports tree) \<and>
           an_imports (analyze_step (Import names) a) = an_imports a @ names \<and>
           an_imports (analyze_step (ImportFrom (Some x) y ys) a) =
             an_imports a @ [x @ ''.'' @ y]"
proof -
  obtain an where an: "analyze_ast parse code = Inr (Analysis an)"
      and walk_order: "an_imports an = concat (map import_entries (walk tree))"
    using assms by (simp add: analyze_ast_def fold_analyze_step_imports)
  have levels: "an_imports an = concat (map (\<lambda>d. imports_at_depth d tree) [0..<weight tree])"
    using walk_order by (simp only: imports_levels)
  have top: "\<forall>body. tree = Other body \<and> imports_at_top_level body \<longrightarrow>
      an_imports an = source_order_imports tree"
    using walk_order by (simp add: top_level_walk top_level_preorder)
  have steps: "an_imports (analyze_step (Import names) a) = an_imports a @ names \<and>
      an_imports (analyze_step (ImportFrom (Some x) y ys) a) = an_imports a @ [x @ ''.'' @ y]"
    by simp
  show ?thesis
    using an walk_order levels top steps by blast
qed

text \<open>
  In \<open>mixed_code\<close> the two imports inside the function come after the two top-level
  imports that follow the function in the source; the second names \<open>d\<close> and \<open>z\<close> of
  the from-imports are dropped. In \<open>flat_code\<close> every import is at top level and the
  list is in source order.
\<close>

theorem imports_in_walk_order_witness:
  "import_sample_parse mixed_code = Inr mixed_tree \<and>
   (\<exists>an. analyze_ast import_sample_parse mixed_code = Inr (Analysis an) \<and>
      an_imports an = [''os'', ''sys'', ''None.y'', ''z'', ''a.b.c'', ''e''] \<and>
      an_imports an =
        imports_at_depth (Suc 0) mixed_tree @ imports_at_depth (Suc (Suc 0)) mixed_tree \<and>
      imports_at_depth (Suc 0) mixed_tree = [''os'', ''sys'', ''None.y'', ''z''] \<and>
      imports_at_depth (Suc (Suc 0)) mixed_tree = [''a.b.c'', ''e''] \<and>
      source_order_imports mixed_tree = [''os'', ''sys'', ''a.b.c'', ''e'', ''None.y'', ''z'']) \<and>
   import_sample_parse flat_code = Inr flat_tree \<and>
   flat_tree = Other [Import [''os'', ''sys''], ImportFrom (Some ''a.b'') ''c'' [''d''],
                      ImportFrom None ''y'' []] \<and>
   imports_at_top_level [Import [''os'', ''sys''], ImportFrom (Some ''a.b'') ''c'' [''d''],
                         ImportFrom None ''y'' []] \<and>
   (\<exists>an. analyze_ast import_sample_parse flat_code = Inr (Analysis an) \<and>
      an_imports an = [''os'', ''sys'', ''a.b.c'', ''None.y''] \<and>
      an_imports an = source_order_imports flat_tree)"
proof -
  obtain m where m: "analyze_ast import_sample_parse mixed_code = Inr (Analysis m)"
      "an_imports m = concat (map import_entries (walk mixed_tree))"
    using imports_in_walk_order [of import_sample_parse mixed_code mixed_tree]
      import_sample_parse_mixed by blast
  have m_list: "an_imports m = [''os'', ''sys'', ''None.y'', ''z'', ''a.b.c'', ''e'']"
    using m(2) by (simp add: mixed_tree_def walk_def)
  have d1: "imports_at_depth (Suc 0) mixed_tree = [''os'', ''sys'', ''None.y'', ''z'']"
    by (simp add: imports_at_depth_def mixed_tree_def)
  have d2: "imports_at_depth (Suc (Suc 0)) mixed_tree = [''a.b.c'', ''e'']"
    by (simp add: imports_at_depth_def mixed_tree_def)
  have src: "source_order_imports mixed_tree =
      [''os'', ''sys'', ''a.b.c'', ''e'', ''None.y'', ''z'']"
    by (simp add: source_order_imports_def mixed_tree_def preorder.simps)
  have top: "imports_at_top_level [Import [''os'', ''sys''],
      ImportFrom (Some ''a.b'') ''c'' [''d''], ImportFrom None ''y'' []]"
    by (simp add: imports_at_top_level_def preorder.simps)
  obtain f where f: "analyze_ast import_sample_parse flat_code = Inr (Analysis f)"
      "an_imports f = concat (map import_entries (walk flat_tree))"
      "\<forall>body. flat_tree = Other body \<and> imports_at_top_level body \<longrightarrow>
         an_imports f = source_order_imports flat_tree"
    using imports_in_walk_order [of import_sample_parse flat_code flat_tree]
      import_sample_parse_flat by blast
  have f_list: "an_imports f = [''os'', ''sys'', ''a.b.c'', ''None.y'']"
    using f(2) by (simp add: flat_tree_def walk_def)
  have f_src: "an_imports f = source_order_imports flat_tree"
    using f(3) top by (simp add: flat_tree_def)
  have part1: "\<exists>an. analyze_ast import_sample_parse mixed_code = Inr (Analysis an) \<and>
      an_imports an = [''os'', ''sys'', ''None.y'', ''z'', ''a.b.c'', ''e''] \<and>
      an_imports an =
        imports_at_depth (Suc 0) mixed_tree @ imports_at_depth (Suc (Suc 0)) mixed_tree \<and>
      imports_at_depth (Suc 0) mixed_tree = [''os'', ''sys'', ''None.y'', ''z''] \<and>
      imports_at_depth (Suc (Suc 0)) mixed_tree = [''a.b.c'', ''e''] \<and>
      source_order_imports mixed_tree = [''os'', ''sys'', ''a.b.c'', ''e'', ''None.y'', ''z'']"
    using m(1) m_list d1 d2 src by simp
  have part2: "\<exists>an. analyze_ast import_sample_parse flat_code = Inr (Analysis an) \<and>
      an_imports an = [''os'', ''sys'', ''a.b.c'', ''None.y''] \<and>
      an_imports an = source_order_imports flat_tree"
    using f(1) f_list f_src by blast
  show ?thesis
    using part1 part2 top import_sample_parse_mixed import_sample_parse_flat
    by (simp add: flat_tree_def)
qed

text \<open>
  Claim C10. When the tree of a parsed text contains a from-import without a module
  (\<open>from . import y\<close>), the import list contains the string \<open>None.y\<close>: the step of
  the loop for that node appends exactly this string.
\<close>

theorem relative_import_none:
  assumes "parse code = Inr tree" and "ImportFrom None y ys \<in> set (walk tree)"
  shows "\<exists>an. analyze_ast parse code = Inr (Analysis an) \<and>
           (''None.'' @ y) \<in> set (an_imports an) \<and>
           an_imports (analyze_step (ImportFrom None y ys) a) = an_imports a @ [''None.'' @ y]"
proof -
  have "set (import_entries (ImportFrom None y ys))
          \<subseteq> set (concat (map import_entries (walk tree)))"
    using assms(2) by (rule entries_in_concat)
  then have "(''None.'' @ y) \<in> set (concat (map import_entries (walk tree)))"
    by simp
  then show ?thesis
    using assms(1) by (simp add: analyze_ast_def fold_analyze_step_imports)
qed

theorem relative_import_none_witness:
  "sample_parse relative_code = Inr relative_tree \<and>
   ImportFrom None ''y'' [''z''] \<in> set (walk relative_tree) \<and>
   (\<exists>an. analyze_ast sample_parse relative_code = Inr (Analysis an) \<and>
      ''None.y'' \<in> set (an_imports an))"
proof -
  have in_walk: "ImportFrom None ''y'' [''z''] \<in> set (walk relative_tree)"
    by (simp add: relative_tree_def walk_def)
  show ?thesis
    using relative_import_none [of sample_parse relative_code relative_tree "''y''" "[''z'']"]
      sample_parse_relative in_walk
    by simp
qed

section \<open>Properties of the adapters and the aggregator\<close>

lemmas sample_defs =
  sample_tools_def sample_scan_def sample_issues_def read_target_def sample_env_def
  sample_lint_def appending_Run_def sample_format_str_def sample_parse_def
  scenario_code_def scenario_tree_def invalid_code_def unformatted_code_def nested_code_def
  relative_code_def exec_code_def nl_def

lemmas adapter_defs =
  analyze_code_def run_pylint_def run_bandit_def run_black_def analyze_ast_def
  run_tests_def discover_files_def new_BanditManager_def get_issue_list_def write_file_def
  issue_dict_def walk_def calculate_complexity_def init_def JSONReporter_def

text \<open>
  Claim C5. \<open>_run_black\<close> always returns a dictionary. Its \<open>needs_formatting\<close> is
  true exactly when the formatter did not return the very text it was given, that is
  when the formatted text differs from the input or the formatter raised. Exactly one of
  \<open>formatted_code\<close> and \<open>error\<close> is present: the formatted text when the formatter
  returned, the text of the exception when it raised.
\<close>

theorem run_black_verdict:
  "needs_formatting (run_black format_str code) = Some (format_str code \<noteq> Inr code) \<and>
   ((formatted_code (run_black format_str code) = None) \<noteq>
    (error (run_black format_str code) = None)) \<and>
   (format_str code = Inr formatted \<longrightarrow>
      formatted_code (run_black format_str code) = Some formatted \<and>
      error (run_black format_str code) = None) \<and>
   (format_str code = Inl e \<longrightarrow>
      error (run_black format_str code) = Some (str_exn e) \<and>
      formatted_code (run_black format_str code) = None)"
  by (cases "format_str code") (auto simp: run_black_def)

theorem run_black_verdict_witness:
  "run_black sample_format_str invalid_code =
     \<lparr>needs_formatting = Some True, formatted_code = None,
      error = Some ''Cannot parse: 1:6: def f(:''\<rparr> \<and>
   run_black sample_format_str unformatted_code =
     \<lparr>needs_formatting = Some True, formatted_code = Some reformatted_code, error = None\<rparr> \<and>
   run_black sample_format_str scenario_code =
     \<lparr>needs_formatting = Some False, formatted_code = Some scenario_code, error = None\<rparr>"
proof -
  have inv: "sample_format_str invalid_code =
      Inl (Exception ''InvalidInput'' ''Cannot parse: 1:6: def f(:'')"
    by (simp add: sample_format_str_def)
  have unf: "sample_format_str unformatted_code = Inr reformatted_code"
    by (simp add: sample_format_str_def unformatted_code_def invalid_code_def nl_def)
  have scn: "sample_format_str scenario_code = Inr scenario_code"
    by (simp add: sample_format_str_def unformatted_code_def invalid_code_def nl_def
          scenario_code_def)
  have neq: "reformatted_code \<noteq> unformatted_code"
    by (simp add: reformatted_code_def unformatted_code_def)
  have "run_black sample_format_str invalid_code =
     \<lparr>needs_formatting = Some True, formatted_code = None,
      error = Some ''Cannot parse: 1:6: def f(:''\<rparr>"
    using run_black_verdict [of sample_format_str invalid_code _
            "Exception ''InvalidInput'' ''Cannot parse: 1:6: def f(:''"] inv
    by (cases "run_black sample_format_str invalid_code") simp
  moreover have "run_black sample_format_str unformatted_code =
     \<lparr>needs_formatting = Some True, formatted_code = Some reformatted_code, error = None\<rparr>"
    using run_black_verdict [of sample_format_str unformatted_code reformatted_code] unf neq
    by (cases "run_black sample_format_str unformatted_code") simp
  moreover have "run_black sample_format_str scenario_code =
     \<lparr>needs_formatting = Some False, formatted_code = Some scenario_code, error = None\<rparr>"
    using run_black_verdict [of sample_format_str scenario_code scenario_code] scn
    by (cases "run_black sample_format_str scenario_code") simp
  ultimately show ?thesis by simp
qed

text \<open>
  In the branch without a path the adapter runs the tests on the target \<open>-\<close> first
  and assigns \<open>files_data\<close> afterwards, so the text never reaches the scanner:
  whatever the text is, the result is the same.
\<close>

lemma run_bandit_without_path_ignores_code:
  "run_bandit T code None e = run_bandit T code' None e"
  by (simp add: run_bandit_def get_issue_list_def split: sum.splits)

text \<open>
  Claim C6. The scan without a path should return the findings of the scan of the same
  text written to a path. It does not: for the text \<open>exec(x)\<close> with nothing on
  standard input, the adapter without a path reports no issue, and with the path
  \<open>a.py\<close> it reports the call of \<open>exec\<close>.
\<close>

theorem run_bandit_modes_differ:
  "fst (run_bandit sample_tools exec_code None sample_env) = Inr [] \<and>
   fst (run_bandit sample_tools exec_code (Some ''a.py'') sample_env) =
     Inr [\<lparr>issue = ''Use of exec detected.'', severity = ''MEDIUM'', confidence = ''HIGH'',
           line = 1, col = 0\<rparr>]"
  by (simp add: run_bandit_def run_tests_def discover_files_def new_BanditManager_def
        get_issue_list_def sample_tools_def sample_scan_def sample_issues_def read_target_def
        sample_env_def write_file_def issue_dict_def exec_code_def nl_def)

text \<open>
  With the appending reporter, what \<open>_run_pylint\<close> returns begins with every message
  the reporter held before the call.
\<close>

lemma run_pylint_keeps_earlier_messages:
  assumes "pylint_Run T = appending_Run emit" and "p \<noteq> []" and "p \<notin> set (unwritable e)"
  shows "fst (run_pylint T code (Some p) self e) =
           Inr (messages (pylint_reporter self) @
                emit (e\<lparr>files := (files e)(p \<mapsto> code)\<rparr>) [p])"
  using assms by (simp add: run_pylint_def write_file_def appending_Run_def)

text \<open>
  Claim C7. Two calls in sequence with the same request should return the same lint
  findings. They do not: the reporter is created once in \<open>__init__\<close> and handed to
  every run, so the second call returns the findings of the first call followed by its
  own, two findings after the first call and four after the second. (The adapter returns the
  reporter's own list object, so the list handed out by the first call grows as well
  when the second call runs; the lists below are the contents at each return.)
\<close>

theorem lint_findings_leak:
  "two_calls_pylint sample_tools scenario_code (Some ''a.py'') init sample_env =
     (Some [\<lparr>msg_type = ''convention'', msg_message = ''Missing module docstring'',
               msg_line = 1\<rparr>,
            \<lparr>msg_type = ''warning'', msg_message = ''Unused import os'', msg_line = 1\<rparr>],
      Some [\<lparr>msg_type = ''convention'', msg_message = ''Missing module docstring'',
               msg_line = 1\<rparr>,
            \<lparr>msg_type = ''warning'', msg_message = ''Unused import os'', msg_line = 1\<rparr>,
            \<lparr>msg_type = ''convention'', msg_message = ''Missing module docstring'',
               msg_line = 1\<rparr>,
            \<lparr>msg_type = ''warning'', msg_message = ''Unused import os'', msg_line = 1\<rparr>])"
  by (simp add: two_calls_pylint_def adapter_defs sample_defs)

text \<open>
  Claim C1, as stated, fails: the claim has the aggregator catch a failure of the lint
  adapter and encode it in the result. \<open>analyze_code\<close> has no handler: when the
  linter raises, the exception leaves \<open>analyze_code\<close> and no dictionary is returned.
\<close>

theorem analyze_code_lint_failure_counterexample:
  "fst (analyze_code crashing_tools scenario_code (Some ''a.py'') init sample_env) =
     Inl (Exception ''RuntimeError'' ''linter crashed'')"
  by (simp add: crashing_tools_def adapter_defs sample_defs)

text \<open>
  Claim C1, amended. \<open>analyze_code\<close> has no handler of its own. An exception of the
  lint adapter, of the security adapter, or of the parser when it is no
  \<open>SyntaxError\<close>, leaves \<open>analyze_code\<close> as it is. In every other case
  \<open>analyze_code\<close> returns the dictionary with all four entries: the lint and security
  lists as the adapters returned them, the dictionary of \<open>_run_black\<close> (which holds
  the text of a formatter failure under \<open>error\<close>) and the dictionary of
  \<open>_analyze_ast\<close> (which holds a syntax error under \<open>error\<close>).
\<close>

theorem analyze_code_outcome:
  "(fst (run_pylint T code fp self e) = Inl x \<longrightarrow>
      fst (analyze_code T code fp self e) = Inl x) \<and>
   (fst (run_pylint T code fp self e) = Inr p \<and>
    fst (run_bandit T code fp (snd (snd (run_pylint T code fp self e)))) = Inl x \<longrightarrow>
      fst (analyze_code T code fp self e) = Inl x) \<and>
   (fst (run_pylint T code fp self e) = Inr p \<and>
    fst (run_bandit T code fp (snd (snd (run_pylint T code fp self e)))) = Inr b \<and>
    ast_parse T code = Inl (Exception cls m) \<longrightarrow>
      fst (analyze_code T code fp self e) = Inl (Exception cls m)) \<and>
   (fst (run_pylint T code fp self e) = Inr p \<and>
    fst (run_bandit T code fp (snd (snd (run_pylint T code fp self e)))) = Inr b \<and>
    (\<forall>cls m. ast_parse T code \<noteq> Inl (Exception cls m)) \<longrightarrow>
      (\<exists>a. analyze_ast (ast_parse T) code = Inr a \<and>
           fst (analyze_code T code fp self e) =
             Inr \<lparr>pylint = Some p, bandit = Some b,
                  black = Some (run_black (black_format_str T) code),
                  ast_analysis = Some a\<rparr>))"
proof -
  obtain rp self1 e1 where rp: "run_pylint T code fp self e = (rp, self1, e1)"
    by (cases "run_pylint T code fp self e") auto
  obtain rb e2 where rb: "run_bandit T code fp e1 = (rb, e2)"
    by (cases "run_bandit T code fp e1") auto
  show ?thesis
    by (cases rp; cases rb; cases "ast_parse T code")
       (auto simp: analyze_code_def rp rb analyze_ast_def split: exn.splits)
qed

theorem analyze_code_outcome_witness:
  "fst (analyze_code crashing_tools scenario_code (Some ''a.py'') init sample_env) =
     Inl (Exception ''RuntimeError'' ''linter crashed'') \<and>
   (\<exists>a. fst (analyze_code sample_tools scenario_code (Some ''a.py'') init sample_env) =
      Inr \<lparr>pylint = Some [\<lparr>msg_type = ''convention'',
                             msg_message = ''Missing module docstring'', msg_line = 1\<rparr>,
                           \<lparr>msg_type = ''warning'', msg_message = ''Unused import os'',
                             msg_line = 1\<rparr>],
           bandit = Some [],
           black = Some (run_black (black_format_str sample_tools) scenario_code),
           ast_analysis = Some a\<rparr>)"
proof -
  have crash: "fst (run_pylint crashing_tools scenario_code (Some ''a.py'') init sample_env) =
      Inl (Exception ''RuntimeError'' ''linter crashed'')"
    by (simp add: crashing_tools_def adapter_defs sample_defs)
  have lint: "fst (run_pylint sample_tools scenario_code (Some ''a.py'') init sample_env) =
      Inr [\<lparr>msg_type = ''convention'', msg_message = ''Missing module docstring'',
             msg_line = 1\<rparr>,
           \<lparr>msg_type = ''warning'', msg_message = ''Unused import os'', msg_line = 1\<rparr>]"
    by (simp add: adapter_defs sample_defs)
  have sec: "fst (run_bandit sample_tools scenario_code (Some ''a.py'')
        (snd (snd (run_pylint sample_tools scenario_code (Some ''a.py'') init sample_env)))) =
      Inr []"
    by (simp add: adapter_defs sample_defs)
  have parse: "\<forall>cls m. ast_parse sample_tools scenario_code \<noteq> Inl (Exception cls m)"
    by (simp add: sample_tools_def sample_parse_def)
  show ?thesis
    using analyze_code_outcome
            [where T = crashing_tools and code = scenario_code and fp = "Some ''a.py''"
               and self = init and e = sample_env
               and x = "Exception ''RuntimeError'' ''linter crashed''"]
          analyze_code_outcome
            [where T = sample_tools and code = scenario_code and fp = "Some ''a.py''"
               and self = init and e = sample_env and b = "[]"
               and p = "[\<lparr>msg_type = ''convention'', msg_message = ''Missing module docstring'',
                           msg_line = 1\<rparr>,
                         \<lparr>msg_type = ''warning'', msg_message = ''Unused import os'',
                           msg_line = 1\<rparr>]"]
          crash lint sec parse
    by blast
qed

section \<open>Properties of the report formatter\<close>

lemma fold_append_line: "fold (\<lambda>x out. out @ [f x]) xs acc = acc @ map f xs"
  by (induction xs arbitrary: acc) simp_all

lemma class_lines_append:
  "class_lines cls output = output @ class_lines cls []"
  by (simp add: class_lines_def fold_append_line)

lemma fold_class_lines:
  "fold class_lines cs acc = acc @ concat (map (\<lambda>c. class_lines c []) cs)"
proof (induction cs arbitrary: acc)
  case Nil
  show ?case by simp
next
  case (Cons c cs)
  show ?case
    by (simp add: Cons.IH class_lines_append [of c acc])
qed

lemma pylint_block_append: "pylint_block r output = output @ pylint_block r []"
  by (simp add: pylint_block_def fold_append_line split: option.splits)

lemma bandit_block_append: "bandit_block r output = output @ bandit_block r []"
  by (simp add: bandit_block_def fold_append_line split: option.splits)

lemma black_block_append: "black_block r output = output @ black_block r []"
  by (simp add: black_block_def Let_def split: option.splits)

lemma structure_lines_append:
  "structure_lines a output = output @ structure_lines a []"
  by (simp add: structure_lines_def Let_def fold_append_line fold_class_lines)

lemma ast_block_append: "ast_block r output = output @ ast_block r []"
  by (simp add: ast_block_def structure_lines_append [of _ "output"]
        split: option.splits ast_result.splits)

lemma structure_lines_header:
  "structure_lines a [] \<noteq> [] \<and> hd (structure_lines a []) = ast_header"
  by (simp add: structure_lines_def Let_def fold_append_line fold_class_lines)

text \<open>
  Claim C9. The report is the lint section, the security section, the formatting section
  and the structure section, in this order, joined by newlines. The lint section is the
  header and one line for each message, and is left out only when the lint list is
  missing or empty; likewise the security section. The formatting section starts with
  its header and is left out only when the formatting dictionary is missing or has no
  key. The structure section starts with its header and is left out only when the
  structural dictionary is missing or is the one of a parse error, which carries no
  structural data. The report depends on the dictionary alone.
\<close>

theorem report_sections:
  "format_code_analysis_results r =
     join nl (pylint_block r [] @ bandit_block r [] @ black_block r [] @ ast_block r []) \<and>
   pylint_block r [] =
     (case pylint r of
        None \<Rightarrow> []
      | Some msgs \<Rightarrow> if msgs = [] then [] else pylint_header # map pylint_line msgs) \<and>
   bandit_block r [] =
     (case bandit r of
        None \<Rightarrow> []
      | Some issues \<Rightarrow> if issues = [] then [] else bandit_header # map bandit_line issues) \<and>
   (black_block r [] = [] \<longleftrightarrow> (case black r of None \<Rightarrow> True | Some b \<Rightarrow> black_empty b)) \<and>
   (black_block r [] \<noteq> [] \<longrightarrow> hd (black_block r []) = black_header) \<and>
   (ast_block r [] = [] \<longleftrightarrow>
      (case ast_analysis r of Some (Analysis a) \<Rightarrow> False | _ \<Rightarrow> True)) \<and>
   (ast_block r [] \<noteq> [] \<longrightarrow> hd (ast_block r []) = ast_header) \<and>
   (r' = r \<longrightarrow> format_code_analysis_results r' = format_code_analysis_results r)"
proof -
  have order: "format_code_analysis_results r =
     join nl (pylint_block r [] @ bandit_block r [] @ black_block r [] @ ast_block r [])"
    unfolding format_code_analysis_results_def
    by (subst ast_block_append, subst black_block_append, subst bandit_block_append) simp
  have lint: "pylint_block r [] =
     (case pylint r of
        None \<Rightarrow> []
      | Some msgs \<Rightarrow> if msgs = [] then [] else pylint_header # map pylint_line msgs)"
    by (simp add: pylint_block_def fold_append_line split: option.splits)
  have sec: "bandit_block r [] =
     (case bandit r of
        None \<Rightarrow> []
      | Some issues \<Rightarrow> if issues = [] then [] else bandit_header # map bandit_line issues)"
    by (simp add: bandit_block_def fold_append_line split: option.splits)
  have fmt1: "black_block r [] = [] \<longleftrightarrow> (case black r of None \<Rightarrow> True | Some b \<Rightarrow> black_empty b)"
    by (simp add: black_block_def Let_def split: option.splits)
  have fmt2: "black_block r [] \<noteq> [] \<longrightarrow> hd (black_block r []) = black_header"
    by (simp add: black_block_def Let_def split: option.splits)
  have str1: "ast_block r [] = [] \<longleftrightarrow>
      (case ast_analysis r of Some (Analysis a) \<Rightarrow> False | _ \<Rightarrow> True)"
    by (simp add: ast_block_def structure_lines_header split: option.splits ast_result.splits)
  have str2: "ast_block r [] \<noteq> [] \<longrightarrow> hd (ast_block r []) = ast_header"
    by (simp add: ast_block_def structure_lines_header split: option.splits ast_result.splits)
  show ?thesis
    using order lint sec fmt1 fmt2 str1 str2 by simp
qed


theorem report_sections_witness:
  "format_code_analysis_results sample_results =
     join nl
       [''=== Pylint Analysis ==='',
        ''[WARNING] Line 1: Unused import os'',
        nl @ ''=== Security Analysis (Bandit) ==='',
        ''[MEDIUM] Line 1: Use of exec detected. (Confidence: HIGH)'',
        nl @ ''=== Code Formatting (Black) ==='',
        ''Code needs formatting. Consider using Black to format the code.'',
        ''Error during formatting check: Cannot parse'',
        nl @ ''=== Code Structure Analysis ==='',
        ''Functions: 1'', ''Classes: 1'', ''Branches: 0'', ''Loops: 0'',
        nl @ ''Imports:'', ''  - os'',
        nl @ ''Functions:'', ''  - f(a, b)'',
        nl @ ''Classes:'', ''  - C'', ''    * m''] \<and>
   format_code_analysis_results degraded_results =
     join nl
       [nl @ ''=== Code Formatting (Black) ==='',
        ''Code needs formatting. Consider using Black to format the code.'',
        ''Error during formatting check: Cannot parse'']"
  using report_sections [of sample_results sample_results]
    report_sections [of degraded_results degraded_results]
  by (simp add: sample_results_def degraded_results_def black_block_def ast_block_def
        structure_lines_def class_lines_def function_line_def pylint_line_def bandit_line_def
        pylint_header_def bandit_header_def black_header_def ast_header_def black_empty_def
        upper_def upper_char_def str_int_def str_nat.simps digit_char_def Let_def)

end
